theory Spec2Isabelle
  imports Complex_Main "HOL-Library.Word" "HOL-Library.AList"
begin

unbundle bit_operations_syntax

section \<open>The SGP30 driver (sgp30.py) as HOL functions\<close>

text \<open>
  Python integers are unbounded, so every integer of the driver is an \<^typ>\<open>int\<close>:
  \<open>crc << 1\<close> is \<open>push_bit 1 crc\<close> and really grows beyond eight bits until the
  final \<open>crc & 0xFF\<close> of \<open>generate_crc\<close>. \<open>^\<close> is \<open>XOR\<close>, \<open>&\<close> is \<open>AND\<close>,
  \<open>|\<close> is \<open>OR\<close> and \<open>>>\<close> is \<open>drop_bit\<close> (floor division, as in Python).
  The leading underscore of the module constants and of the private methods is
  dropped, since an Isabelle name cannot start with one.
\<close>

subsection \<open>Module constants\<close>

definition SGP30_DEFAULT_I2C_ADDR :: int where
  "SGP30_DEFAULT_I2C_ADDR = 0x58"

definition SGP30_FEATURESET :: int where
  "SGP30_FEATURESET = 0x0020"

definition SGP30_CRC8_POLYNOMIAL :: int where
  "SGP30_CRC8_POLYNOMIAL = 0x31"

definition SGP30_CRC8_INIT :: int where
  "SGP30_CRC8_INIT = 0xFF"

definition SGP30_WORD_LEN :: nat where
  "SGP30_WORD_LEN = 2"

subsection \<open>generate_crc\<close>

text \<open>
  The inner loop \<open>for _ in range(8)\<close>, with the number of rounds still to run
  as first argument. The test \<open>if crc & 0x80\<close> is true when the value is not zero.
\<close>

fun crc_shift_loop :: "nat \<Rightarrow> int \<Rightarrow> int" where
  "crc_shift_loop 0 crc = crc"
| "crc_shift_loop (Suc n) crc =
     crc_shift_loop n
       (if crc AND 0x80 \<noteq> 0 then push_bit 1 crc XOR SGP30_CRC8_POLYNOMIAL
        else push_bit 1 crc)"

text \<open>The outer loop \<open>for byte in data\<close>: \<open>crc ^= byte\<close>, then the eight rounds.\<close>

fun crc_byte_loop :: "int list \<Rightarrow> int \<Rightarrow> int" where
  "crc_byte_loop [] crc = crc"
| "crc_byte_loop (byte # data) crc =
     crc_byte_loop data (crc_shift_loop 8 (crc XOR byte))"

definition generate_crc :: "int list \<Rightarrow> int" where
  "generate_crc data = crc_byte_loop data SGP30_CRC8_INIT AND 0xFF"

subsection \<open>The checksum algorithm as the specification words it\<close>

text \<open>
  This second definition follows the pseudocode of the specification, not the source:
  the crc starts at \<open>0xFF\<close>, each byte is XORed in, and each of the eight rounds
  shifts left and masks the result to eight bits, XORing the polynomial \<open>0x31\<close> in
  when the high bit (bit 7 of the 8-bit value) was set. Nothing is masked at the end.
\<close>

fun spec_shift_loop :: "nat \<Rightarrow> int \<Rightarrow> int" where
  "spec_shift_loop 0 crc = crc"
| "spec_shift_loop (Suc n) crc =
     spec_shift_loop n
       (if bit crc 7 then (push_bit 1 crc XOR 0x31) AND 0xFF
        else push_bit 1 crc AND 0xFF)"

fun spec_byte_loop :: "int list \<Rightarrow> int \<Rightarrow> int" where
  "spec_byte_loop [] crc = crc"
| "spec_byte_loop (b # bs) crc = spec_byte_loop bs (spec_shift_loop 8 (crc XOR b))"

definition compute_checksum :: "int list \<Rightarrow> int" where
  "compute_checksum bs = spec_byte_loop bs 0xFF"

subsection \<open>Exceptions, attribute values and the outside world\<close>

text \<open>
  A raised exception is a value of \<open>error\<close>; \<open>RuntimeError\<close> carries the
  message of the source. \<open>ValueError\<close> is what \<open>bytes\<close> raises on an element
  outside \<open>range(256)\<close>, \<open>OSError\<close> is the transport error of the bus.
\<close>

datatype error =
    RuntimeError string
  | ValueError
  | TypeError
  | AttributeError
  | IndexError
  | OSError

text \<open>
  An instance is its attribute dictionary, in insertion order. The values stored by
  the driver are the bus object, an integer and a list of integers (or \<open>None\<close>).
\<close>

datatype pyval = PyI2C | PyInt int | PyList "int list" | PyNone

type_synonym obj = "(string \<times> pyval) list"

definition setattr :: "obj \<Rightarrow> string \<Rightarrow> pyval \<Rightarrow> obj" where
  "setattr self name v = AList.update name v self"

text \<open>
  The bus collaborator and the clock are outside the driver. They are modelled by the
  calls they receive, in order (\<open>trace\<close>), and by the bytes the device will hand
  to the coming reads (\<open>rx\<close>). \<open>Sleep\<close> carries the argument of
  \<open>time.sleep\<close>, in seconds. The device acknowledges every write; the only
  transport error of this bus is a read that asks for more bytes than it has.
\<close>

datatype event =
    Writeto int "int list"
  | Sleep real
  | Readfrom_into int nat

record world =
  rx :: "int list"
  trace :: "event list"

definition writeto :: "int \<Rightarrow> int list \<Rightarrow> world \<Rightarrow> world" where
  "writeto addr buf w = w\<lparr>trace := trace w @ [Writeto addr buf]\<rparr>"

definition sleep :: "real \<Rightarrow> world \<Rightarrow> world" where
  "sleep delay w = w\<lparr>trace := trace w @ [Sleep delay]\<rparr>"

text \<open>
  \<open>readfrom_into addr buf\<close> fills a buffer of \<open>n\<close> bytes: the result is the
  filled buffer. A device that has fewer bytes to give is a transport error.
\<close>

definition readfrom_into :: "int \<Rightarrow> nat \<Rightarrow> world \<Rightarrow> (error + int list) \<times> world" where
  "readfrom_into addr n w =
     (let w' = w\<lparr>trace := trace w @ [Readfrom_into addr n]\<rparr>
      in if length (rx w) < n then (Inl OSError, w')
         else (Inr (take n (rx w)), w'\<lparr>rx := drop n (rx w)\<rparr>))"

text \<open>\<open>bytes(command)\<close> raises \<open>ValueError\<close> unless every element is in \<open>range(256)\<close>.\<close>

definition bytes :: "int list \<Rightarrow> error + int list" where
  "bytes xs = (if list_all (\<lambda>x. 0 \<le> x \<and> x < 256) xs then Inr xs else Inl ValueError)"

text \<open>
  The call \<open>self._i2c.writeto(self._addr, bytes(command))\<close> is evaluated from left
  to right: first the two attribute lookups \<open>self._i2c.writeto\<close> and
  \<open>self._addr\<close> (a missing attribute is an \<open>AttributeError\<close>), then
  \<open>bytes(command)\<close>, and only then the call, in which the bus refuses an address
  that is no integer with a \<open>TypeError\<close>.
\<close>

definition bus_attributes :: "obj \<Rightarrow> error + pyval" where
  "bus_attributes self =
     (case map_of self ''_i2c'' of
        Some PyI2C \<Rightarrow>
          (case map_of self ''_addr'' of
             None \<Rightarrow> Inl AttributeError
           | Some v \<Rightarrow> Inr v)
      | _ \<Rightarrow> Inl AttributeError)"

text \<open>
  The address a handle gives to the bus, when both attributes are there and the
  address is an integer: the handles that construction returns are of this kind.
\<close>

definition bus_address :: "obj \<Rightarrow> error + int" where
  "bus_address self =
     (case map_of self ''_i2c'' of
        Some PyI2C \<Rightarrow>
          (case map_of self ''_addr'' of
             None \<Rightarrow> Inl AttributeError
           | Some (PyInt a) \<Rightarrow> Inr a
           | Some _ \<Rightarrow> Inl TypeError)
      | _ \<Rightarrow> Inl AttributeError)"

text \<open>\<open>r[i]\<close> on the value a transaction returns: \<open>None\<close> is not subscriptable.\<close>

definition subscript :: "int list option \<Rightarrow> nat \<Rightarrow> error + int" where
  "subscript r i =
     (case r of
        None \<Rightarrow> Inl TypeError
      | Some xs \<Rightarrow> if i < length xs then Inr (xs ! i) else Inl IndexError)"

subsection \<open>Low level command functions\<close>

text \<open>
  The loop \<open>for i in range(reply_size)\<close> of \<open>_i2c_read_words_from_cmd\<close>, over
  the indices still to visit, with \<open>result\<close> as accumulator. The three reads
  \<open>crc_result[3*i]\<close>, \<open>[3*i+1]\<close>, \<open>[3*i+2]\<close> raise \<open>IndexError\<close> exactly
  when the last index is out of range.
\<close>

fun read_words_loop :: "int list \<Rightarrow> nat list \<Rightarrow> int list \<Rightarrow> error + int list" where
  "read_words_loop crc_result [] result = Inr result"
| "read_words_loop crc_result (i # is) result =
     (if length crc_result \<le> 3 * i + 2 then Inl IndexError
      else
        let word = [crc_result ! (3 * i), crc_result ! (3 * i + 1)];
            crc = crc_result ! (3 * i + 2)
        in if generate_crc word \<noteq> crc then Inl (RuntimeError ''CRC Error'')
           else read_words_loop crc_result is
                  (result @ [push_bit 8 (word ! 0) OR word ! 1]))"

definition i2c_read_words_from_cmd ::
  "obj \<Rightarrow> int list \<Rightarrow> real \<Rightarrow> nat \<Rightarrow> world \<Rightarrow> (error + int list option) \<times> world" where
  "i2c_read_words_from_cmd self command delay reply_size w =
     (case bus_attributes self of
        Inl e \<Rightarrow> (Inl e, w)
      | Inr address \<Rightarrow>
     (case bytes command of
        Inl e \<Rightarrow> (Inl e, w)
      | Inr buf \<Rightarrow>
     (case address of
        PyInt addr \<Rightarrow>
          let w1 = writeto addr buf w;
              w2 = sleep delay w1
          in if reply_size = 0 then (Inr None, w2)
             else
               (case readfrom_into addr (reply_size * (SGP30_WORD_LEN + 1)) w2 of
                  (Inl e, w3) \<Rightarrow> (Inl e, w3)
                | (Inr crc_result, w3) \<Rightarrow>
                    (case read_words_loop crc_result [0..<reply_size] [] of
                       Inl e \<Rightarrow> (Inl e, w3)
                     | Inr result \<Rightarrow> (Inr (Some result), w3)))
      | _ \<Rightarrow> (Inl TypeError, w))))"

text \<open>A profile is the list \<open>[name, command, signals, delay]\<close>.\<close>

definition run_profile ::
  "obj \<Rightarrow> string \<times> int list \<times> nat \<times> real \<Rightarrow> world \<Rightarrow> (error + int list option) \<times> world" where
  "run_profile self profile w =
     (case profile of (_, command, signals, delay) \<Rightarrow>
        i2c_read_words_from_cmd self command delay signals w)"

subsection \<open>The operations of the class\<close>

text \<open>\<open>initalise_indoor_air_quality\<close> runs its profile and returns nothing.\<close>

definition initalise_indoor_air_quality :: "obj \<Rightarrow> world \<Rightarrow> (error + unit) \<times> world" where
  "initalise_indoor_air_quality self w =
     (case run_profile self (''initalise_indoor_air_quality'', [0x20, 0x03], 0, 0.01) w of
        (Inl e, w') \<Rightarrow> (Inl e, w')
      | (Inr _, w') \<Rightarrow> (Inr (), w'))"

definition iaq_measure :: "obj \<Rightarrow> world \<Rightarrow> (error + int list option) \<times> world" where
  "iaq_measure self w = run_profile self (''iaq_measure'', [0x20, 0x08], 2, 0.05) w"

text \<open>The getter of the property \<open>iaq_baseline\<close>.\<close>

definition iaq_baseline :: "obj \<Rightarrow> world \<Rightarrow> (error + int list option) \<times> world" where
  "iaq_baseline self w = run_profile self (''iaq_get_baseline'', [0x20, 0x15], 2, 0.01) w"

text \<open>
  The loop \<open>for value in [total_volatile_organic_compounds, co2_equivalent]\<close> of the
  setter, with \<open>buffer\<close> as accumulator.
\<close>

fun baseline_loop :: "int list \<Rightarrow> int list \<Rightarrow> int list" where
  "baseline_loop [] buffer = buffer"
| "baseline_loop (v # values) buffer =
     (let arr = [drop_bit 8 v, v AND 0xFF];
          arr = arr @ [generate_crc arr]
      in baseline_loop values (buffer @ arr))"

text \<open>
  The function under \<open>@iaq_baseline.setter\<close>, as the source declares it: two value
  parameters after \<open>self\<close>. This is its body, run with an integer for each of
  them. It returns nothing.
\<close>

definition iaq_baseline_setter :: "obj \<Rightarrow> int \<Rightarrow> int \<Rightarrow> world \<Rightarrow> (error + unit) \<times> world" where
  "iaq_baseline_setter self co2_equivalent total_volatile_organic_compounds w =
     (if co2_equivalent = 0 \<and> total_volatile_organic_compounds = 0
      then (Inl (RuntimeError ''Invalid baseline''), w)
      else
        let buffer = baseline_loop [total_volatile_organic_compounds, co2_equivalent] []
        in (case run_profile self (''iaq_set_baseline'', [0x20, 0x1e] @ buffer, 0, 0.01) w of
              (Inl e, w') \<Rightarrow> (Inl e, w')
            | (Inr _, w') \<Rightarrow> (Inr (), w')))"

text \<open>
  A call of that function with the positional arguments \<open>args\<close> after \<open>self\<close>.
  It has two required parameters, so any other number of arguments is a
  \<open>TypeError\<close>, raised before the body runs. With two arguments the body runs; an
  argument that is no integer fails on \<open>value >> 8\<close> with a \<open>TypeError\<close> while
  the buffer is built, before anything is written to the bus.
\<close>

definition iaq_baseline_fset :: "obj \<Rightarrow> pyval list \<Rightarrow> world \<Rightarrow> (error + unit) \<times> world" where
  "iaq_baseline_fset self args w =
     (case args of
        [PyInt c, PyInt t] \<Rightarrow> iaq_baseline_setter self c t w
      | _ \<Rightarrow> (Inl TypeError, w))"

text \<open>
  The assignment \<open>self.iaq_baseline = value\<close>, the way the class offers to set the
  baseline: a property hands its setter the one assigned value, whatever it is (a
  pair of integers is \<open>PyList [co2, tvoc]\<close>).
\<close>

definition iaq_baseline_assign :: "obj \<Rightarrow> pyval \<Rightarrow> world \<Rightarrow> (error + unit) \<times> world" where
  "iaq_baseline_assign self v w = iaq_baseline_fset self [v] w"

text \<open>
  The properties \<open>tvoc\<close> and \<open>co2_equivalent\<close>: \<open>self.iaq_measure()[1]\<close>
  and \<open>[0]\<close>. They stand after the setter, whose parameter has the name of the
  second one.
\<close>

definition tvoc :: "obj \<Rightarrow> world \<Rightarrow> (error + int) \<times> world" where
  "tvoc self w =
     (case iaq_measure self w of
        (Inl e, w') \<Rightarrow> (Inl e, w')
      | (Inr r, w') \<Rightarrow> (subscript r 1, w'))"

definition co2_equivalent :: "obj \<Rightarrow> world \<Rightarrow> (error + int) \<times> world" where
  "co2_equivalent self w =
     (case iaq_measure self w of
        (Inl e, w') \<Rightarrow> (Inl e, w')
      | (Inr r, w') \<Rightarrow> (subscript r 0, w'))"

subsection \<open>Construction\<close>

text \<open>
  \<open>__init__(self, i2c, address)\<close> on the object \<open>self\<close>; the bus \<open>i2c\<close> is the
  one of the world. The result is the initialised object, or the exception.
\<close>

definition init :: "obj \<Rightarrow> int \<Rightarrow> world \<Rightarrow> (error + obj) \<times> world" where
  "init self address w =
     (let self = setattr self ''_i2c'' PyI2C;
          self = setattr self ''_addr'' (PyInt address)
      in case i2c_read_words_from_cmd self [0x36, 0x82] 0.01 3 w of
           (Inl e, w1) \<Rightarrow> (Inl e, w1)
         | (Inr r, w1) \<Rightarrow>
             let self = setattr self ''serial''
                          (case r of None \<Rightarrow> PyNone | Some ws \<Rightarrow> PyList ws)
             in (case i2c_read_words_from_cmd self [0x20, 0x2f] 0.01 1 w1 of
                   (Inl e, w2) \<Rightarrow> (Inl e, w2)
                 | (Inr featureset, w2) \<Rightarrow>
                     (case subscript featureset 0 of
                        Inl e \<Rightarrow> (Inl e, w2)
                      | Inr f \<Rightarrow>
                          if f \<noteq> SGP30_FEATURESET
                          then (Inl (RuntimeError ''SGP30 Not detected''), w2)
                          else (case initalise_indoor_air_quality self w2 of
                                  (Inl e, w3) \<Rightarrow> (Inl e, w3)
                                | (Inr _, w3) \<Rightarrow> (Inr self, w3)))))"

text \<open>
  The call \<open>SGP30(i2c, address)\<close>: a fresh object with no attribute is initialised,
  and the caller receives it only when \<open>__init__\<close> raised nothing.
\<close>

definition SGP30 :: "int \<Rightarrow> world \<Rightarrow> (error + obj) \<times> world" where
  "SGP30 address w = init [] address w"

subsection \<open>A sample handle\<close>

text \<open>
  The object that \<open>SGP30(i2c)\<close> returns at the default address when the device
  reports the serial number 0: it is the handle of the concrete runs below.
\<close>

definition example_handle :: obj where
  "example_handle =
     [(''_i2c'', PyI2C), (''_addr'', PyInt 0x58), (''serial'', PyList [0, 0, 0])]"


section \<open>Properties of the checksum\<close>

subsection \<open>Masking once at the end equals masking in every round\<close>

lemma and_255_take_bit: "(k::int) AND 0xFF = take_bit 8 k"
proof -
  have "(255::int) = mask 8"
    by (simp add: mask_eq_exp_minus_1)
  then show ?thesis
    by (simp add: take_bit_eq_mask)
qed

lemma and_128_bit: "((k::int) AND 0x80 \<noteq> 0) = bit k 7"
proof -
  have "(k AND 128 \<noteq> 0) = (k AND push_bit 7 1 \<noteq> 0)"
    by simp
  then show ?thesis
    by (simp only: bit_iff_and_push_bit_not_eq_0)
qed

lemma shift_mask_plain:
  "take_bit 8 (push_bit 1 (take_bit 8 (c::int))) = take_bit 8 (push_bit 1 c)"
  by (simp add: take_bit_eq_mod push_bit_eq_mult mod_mult_left_eq)

lemma shift_mask_poly:
  "take_bit 8 (push_bit 1 (take_bit 8 c) XOR (p::int)) = take_bit 8 (push_bit 1 c XOR p)"
  by (simp only: take_bit_xor shift_mask_plain)

text \<open>
  The invariant of the eight rounds: the low eight bits of the code's growing
  value are the specification's masked value.
\<close>

lemma crc_shift_loop_mask:
  "take_bit 8 (crc_shift_loop n c) = spec_shift_loop n (take_bit 8 c)"
proof (induction n arbitrary: c)
  case 0
  show ?case by simp
next
  case (Suc n)
  show ?case
    using shift_mask_poly [of c 49] shift_mask_plain [of c]
    by (simp add: Suc.IH and_128_bit and_255_take_bit SGP30_CRC8_POLYNOMIAL_def
        bit_take_bit_iff)
qed

lemma byte_take_bit: "0 \<le> b \<Longrightarrow> b \<le> 255 \<Longrightarrow> take_bit 8 b = (b::int)"
  by (simp add: take_bit_int_eq_self)

lemma crc_byte_loop_mask:
  "\<forall>b \<in> set data. 0 \<le> b \<and> b \<le> 255 \<Longrightarrow>
   take_bit 8 (crc_byte_loop data c) = spec_byte_loop data (take_bit 8 c)"
proof (induction data arbitrary: c)
  case Nil
  show ?case by simp
next
  case (Cons b data)
  have b: "take_bit 8 b = b"
    using Cons.prems by (simp add: byte_take_bit)
  have "take_bit 8 (c XOR b) = take_bit 8 c XOR b"
    by (simp add: take_bit_xor b)
  with Cons show ?case
    by (simp add: crc_shift_loop_mask)
qed

lemma generate_crc_take_bit:
  "generate_crc data = take_bit 8 (crc_byte_loop data 0xFF)"
  by (simp add: generate_crc_def SGP30_CRC8_INIT_def and_255_take_bit)

lemma generate_crc_range: "0 \<le> generate_crc data \<and> generate_crc data \<le> 255"
proof -
  have "take_bit 8 (crc_byte_loop data 0xFF) < 2 ^ 8"
    by (rule take_bit_int_less_exp)
  then show ?thesis
    by (simp add: generate_crc_take_bit)
qed

text \<open>
  Claim C1. For every sequence of bytes (integers from 0 to 255), \<open>generate_crc\<close>,
  which masks only once at its return, computes the value of the specification's
  reference CRC-8 (polynomial \<open>0x31\<close>, initial value \<open>0xFF\<close>, masked to eight bits
  after every shift), and the result lies between 0 and 255.
\<close>

theorem generate_crc_refines_spec:
  assumes "\<forall>b \<in> set data. 0 \<le> b \<and> b \<le> 255"
  shows "generate_crc data = compute_checksum data
         \<and> 0 \<le> generate_crc data \<and> generate_crc data \<le> 255"
proof -
  have "take_bit 8 (255::int) = 255"
    by simp
  with crc_byte_loop_mask [OF assms, of 255]
  have "generate_crc data = compute_checksum data"
    by (simp add: generate_crc_take_bit compute_checksum_def)
  with generate_crc_range [of data] show ?thesis
    by simp
qed

theorem generate_crc_refines_spec_witness:
  "list_all (\<lambda>b. 0 \<le> b \<and> b \<le> (255::int)) [0x01, 0x90, 0xFF]
   \<and> generate_crc [0x01, 0x90, 0xFF] = compute_checksum [0x01, 0x90, 0xFF]
   \<and> 0 \<le> generate_crc [0x01, 0x90, 0xFF] \<and> generate_crc [0x01, 0x90, 0xFF] \<le> 255"
  using generate_crc_refines_spec [of "[0x01, 0x90, 0xFF]"] by simp

subsection \<open>Known values\<close>

text \<open>
  Claim C8. \<open>generate_crc\<close> applied to the two bytes \<open>[0xBE, 0xEF]\<close> returns
  \<open>0x92\<close>.
\<close>

theorem generate_crc_beef: "generate_crc [0xBE, 0xEF] = 0x92"
  by (simp add: generate_crc_def SGP30_CRC8_INIT_def SGP30_CRC8_POLYNOMIAL_def
      eval_nat_numeral)

text \<open>
  Claim C10. \<open>generate_crc\<close> applied to the empty sequence returns the initial
  value \<open>0xFF\<close>: the loop body never runs.
\<close>

theorem generate_crc_empty: "generate_crc [] = 0xFF"
  by (simp add: generate_crc_def SGP30_CRC8_INIT_def)


section \<open>Properties of the driver\<close>

subsection \<open>The reply loop\<close>

lemma read_words_loop_bad:
  assumes "i \<in> set js"
    and "\<forall>j \<in> set js. 3 * j + 2 < length buf"
    and "generate_crc [buf ! (3 * i), buf ! (3 * i + 1)] \<noteq> buf ! (3 * i + 2)"
  shows "read_words_loop buf js acc = Inl (RuntimeError ''CRC Error'')"
  using assms
proof (induction js arbitrary: acc)
  case Nil
  then show ?case by simp
next
  case (Cons j js)
  show ?case
  proof (cases "generate_crc [buf ! (3 * j), buf ! (3 * j + 1)] = buf ! (3 * j + 2)")
    case True
    with Cons.prems have "i \<in> set js" by auto
    with Cons.IH Cons.prems True show ?thesis by (simp add: Let_def)
  next
    case False
    with Cons.prems show ?thesis by (simp add: Let_def)
  qed
qed

lemma read_words_loop_Inr:
  "read_words_loop buf js acc = Inr r \<Longrightarrow>
   r = acc @ map (\<lambda>j. push_bit 8 (buf ! (3 * j)) OR buf ! (3 * j + 1)) js
   \<and> (\<forall>j \<in> set js. 3 * j + 2 < length buf
        \<and> generate_crc [buf ! (3 * j), buf ! (3 * j + 1)] = buf ! (3 * j + 2))"
proof (induction js arbitrary: acc)
  case Nil
  then show ?case by simp
next
  case (Cons j js)
  from Cons.prems have ok: "3 * j + 2 < length buf"
    "generate_crc [buf ! (3 * j), buf ! (3 * j + 1)] = buf ! (3 * j + 2)"
    by (auto simp add: Let_def split: if_splits)
  with Cons.prems have "read_words_loop buf js
      (acc @ [push_bit 8 (buf ! (3 * j)) OR buf ! (3 * j + 1)]) = Inr r"
    by (simp add: Let_def)
  from Cons.IH [OF this] ok show ?case by simp
qed

subsection \<open>One transaction\<close>

lemma bus_attributes_of_address:
  "bus_address self = Inr a \<Longrightarrow> bus_attributes self = Inr (PyInt a)"
  by (auto simp add: bus_address_def bus_attributes_def split: option.splits pyval.splits)

lemma transaction_trace:
  assumes "bus_address self = Inr a" and "bytes command = Inr buf"
  shows "trace (snd (i2c_read_words_from_cmd self command delay n w)) =
         trace w @ [Writeto a buf, Sleep delay]
           @ (if n = 0 then [] else [Readfrom_into a (3 * n)])"
  using assms bus_attributes_of_address [OF assms(1)]
  by (simp add: i2c_read_words_from_cmd_def writeto_def sleep_def readfrom_into_def
      SGP30_WORD_LEN_def Let_def mult.commute split: sum.splits prod.splits)

text \<open>
  Claim C2. When the reply of a transaction has been read and the checksum recomputed
  for some reply word differs from the checksum byte received with it, the whole
  transaction raises the checksum error \<open>CRC Error\<close>: the result is the exception
  and no list of words, so no prefix of the decoded words reaches the caller. The
  concrete run is a measure-IAQ call whose first word is valid and whose second
  word carries a corrupted checksum byte.
\<close>

theorem crc_mismatch_fails_transaction:
  assumes "bus_address self = Inr addr"
    and "bytes command = Inr buf"
    and "3 * reply_size \<le> length (rx w)"
    and "i < reply_size"
    and "generate_crc [rx w ! (3 * i), rx w ! (3 * i + 1)] \<noteq> rx w ! (3 * i + 2)"
  shows "fst (i2c_read_words_from_cmd self command delay reply_size w) =
         Inl (RuntimeError ''CRC Error'')"
proof -
  let ?buf = "take (3 * reply_size) (rx w)"
  have len: "length ?buf = 3 * reply_size"
    using assms(3) by simp
  have "read_words_loop ?buf [0..<reply_size] [] = Inl (RuntimeError ''CRC Error'')"
  proof (rule read_words_loop_bad [where i = i])
    show "i \<in> set [0..<reply_size]" using assms(4) by simp
    show "\<forall>j \<in> set [0..<reply_size]. 3 * j + 2 < length ?buf"
      unfolding len by auto
    show "generate_crc [?buf ! (3 * i), ?buf ! (3 * i + 1)] \<noteq> ?buf ! (3 * i + 2)"
      using assms(4,5) by simp
  qed
  with assms(1,2,3,4) bus_attributes_of_address [OF assms(1)] show ?thesis
    by (simp add: i2c_read_words_from_cmd_def writeto_def sleep_def readfrom_into_def
        SGP30_WORD_LEN_def Let_def mult.commute)
qed

subsection \<open>Checksums of the concrete runs\<close>

lemma crc_beef: "generate_crc [0xBE, 0xEF] = 0x92"
  by (simp add: generate_crc_def SGP30_CRC8_INIT_def SGP30_CRC8_POLYNOMIAL_def
      eval_nat_numeral)

lemma crc_0190: "generate_crc [0x01, 0x90] = 0x4C"
  by (simp add: generate_crc_def SGP30_CRC8_INIT_def SGP30_CRC8_POLYNOMIAL_def
      eval_nat_numeral)

lemma crc_0000: "generate_crc [0, 0] = 0x81"
  by (simp add: generate_crc_def SGP30_CRC8_INIT_def SGP30_CRC8_POLYNOMIAL_def
      eval_nat_numeral)

lemma crc_0020: "generate_crc [0, 0x20] = 0x07"
  by (simp add: generate_crc_def SGP30_CRC8_INIT_def SGP30_CRC8_POLYNOMIAL_def
      eval_nat_numeral)

lemma crc_0005: "generate_crc [0, 0x05] = 0x74"
  by (simp add: generate_crc_def SGP30_CRC8_INIT_def SGP30_CRC8_POLYNOMIAL_def
      eval_nat_numeral)

theorem crc_mismatch_fails_transaction_witness:
  "bus_address [(''_i2c'', PyI2C), (''_addr'', PyInt 0x58)] = Inr 0x58
   \<and> bytes [0x20, 0x08] = Inr [0x20, 0x08]
   \<and> generate_crc [0x01, 0x90] = 0x4C
   \<and> generate_crc [0x00, 0x05] \<noteq> 0x75
   \<and> fst (iaq_measure [(''_i2c'', PyI2C), (''_addr'', PyInt 0x58)]
            \<lparr>rx = [0x01, 0x90, 0x4C, 0x00, 0x05, 0x75], trace = []\<rparr>)
       = Inl (RuntimeError ''CRC Error'')"
  using crc_mismatch_fails_transaction [of "[(''_i2c'', PyI2C), (''_addr'', PyInt 0x58)]" "0x58"
      "[0x20, 0x08]" "[0x20, 0x08]" 2
      "\<lparr>rx = [0x01, 0x90, 0x4C, 0x00, 0x05, 0x75], trace = []\<rparr>" 1 "0.05"]
  by (simp add: iaq_measure_def run_profile_def bus_address_def bytes_def crc_0190 crc_0005)

subsection \<open>Encoding and decoding a word\<close>

lemma word_join: "push_bit 8 (drop_bit 8 v) OR (v AND 0xFF) = (v::int)"
proof -
  have "push_bit 8 (drop_bit 8 v) OR take_bit 8 v = v"
    by (rule bit_eqI) (auto simp add: bit_simps)
  then show ?thesis by (simp add: and_255_take_bit)
qed

text \<open>
  Claim C3. For every 16-bit value \<open>v\<close> (from 0 to 65535), the setter's encoding of
  \<open>v\<close> is the triple \<open>[v >> 8, v & 0xFF, generate_crc of these two bytes]\<close>, and the
  reply loop applied to this triple as a one-word reply passes the checksum test and
  yields \<open>v\<close> again.
\<close>

theorem word_roundtrip:
  assumes "0 \<le> v" and "v \<le> 65535"
  shows "baseline_loop [v] [] = [drop_bit 8 v, v AND 0xFF, generate_crc [drop_bit 8 v, v AND 0xFF]]
     \<and> read_words_loop (baseline_loop [v] []) [0..<1] [] = Inr [v]"
  using word_join [of v] by (simp add: Let_def)

theorem word_roundtrip_witness:
  "(0::int) \<le> 0xBEEF \<and> (0xBEEF::int) \<le> 65535
   \<and> baseline_loop [0xBEEF] [] = [0xBE, 0xEF, 0x92]
   \<and> read_words_loop [0xBE, 0xEF, 0x92] [0..<1] [] = Inr [0xBEEF]"
  using word_roundtrip [of "0xBEEF"] crc_beef by (simp add: Let_def drop_bit_eq_div and_255_take_bit take_bit_eq_mod)

subsection \<open>Transactions that succeed\<close>

lemma transaction_noreply:
  assumes "bus_address self = Inr a" and "bytes command = Inr buf"
  shows "i2c_read_words_from_cmd self command delay 0 w =
         (Inr None, w\<lparr>trace := trace w @ [Writeto a buf, Sleep delay]\<rparr>)"
  using assms bus_attributes_of_address [OF assms(1)]
  by (simp add: i2c_read_words_from_cmd_def writeto_def sleep_def)

lemma transaction_reply:
  assumes "bus_address self = Inr a" and "bytes command = Inr buf"
    and "0 < n" and "rx w = reply @ rest" and "length reply = 3 * n"
    and "read_words_loop reply [0..<n] [] = Inr ws"
  shows "i2c_read_words_from_cmd self command delay n w =
         (Inr (Some ws),
          w\<lparr>rx := rest,
            trace := trace w @ [Writeto a buf, Sleep delay, Readfrom_into a (3 * n)]\<rparr>)"
  using assms bus_attributes_of_address [OF assms(1)]
  by (simp add: i2c_read_words_from_cmd_def writeto_def sleep_def readfrom_into_def
      SGP30_WORD_LEN_def Let_def mult.commute)

lemma bus_address_init2:
  "bus_address [(''_i2c'', PyI2C), (''_addr'', PyInt a)] = Inr a"
  by (simp add: bus_address_def)

lemma bus_address_init3:
  "bus_address [(''_i2c'', PyI2C), (''_addr'', PyInt a), (''serial'', v)] = Inr a"
  by (simp add: bus_address_def)

lemma bytes_serial: "bytes [0x36, 0x82] = Inr [0x36, 0x82]"
  by (simp add: bytes_def)

lemma bytes_featureset: "bytes [0x20, 0x2f] = Inr [0x20, 0x2f]"
  by (simp add: bytes_def)

lemma bytes_measure: "bytes [0x20, 0x08] = Inr [0x20, 0x08]"
  by (simp add: bytes_def)

lemma bytes_get_baseline: "bytes [0x20, 0x15] = Inr [0x20, 0x15]"
  by (simp add: bytes_def)

subsection \<open>Construction\<close>

text \<open>
  Claim C4. When the serial number has been read (nine bytes whose three checksums
  are right) and the feature-set word read back after the command \<open>[0x20, 0x2F]\<close>
  is any value other than \<open>0x0020\<close>, construction raises \<open>SGP30 Not detected\<close>
  and returns no handle; the bus has then seen the two identification transactions
  only, so the IAQ initialisation \<open>[0x20, 0x03]\<close> was never sent.
\<close>

theorem wrong_featureset_fails_construction:
  assumes "rx w = s @ [b0, b1, c] @ rest"
    and "length s = 9"
    and "read_words_loop s [0..<3] [] = Inr ws"
    and "generate_crc [b0, b1] = c"
    and "push_bit 8 b0 OR b1 \<noteq> 0x0020"
  shows "SGP30 address w =
         (Inl (RuntimeError ''SGP30 Not detected''),
          w\<lparr>rx := rest,
            trace := trace w @
              [Writeto address [0x36, 0x82], Sleep 0.01, Readfrom_into address 9,
               Writeto address [0x20, 0x2f], Sleep 0.01, Readfrom_into address 3]\<rparr>)"
proof -
  let ?self2 = "[(''_i2c'', PyI2C), (''_addr'', PyInt address)]"
  let ?self3 = "[(''_i2c'', PyI2C), (''_addr'', PyInt address), (''serial'', PyList ws)]"
  let ?w1 = "w\<lparr>rx := [b0, b1, c] @ rest,
      trace := trace w @ [Writeto address [0x36, 0x82], Sleep 0.01, Readfrom_into address 9]\<rparr>"
  have serial: "i2c_read_words_from_cmd ?self2 [0x36, 0x82] 0.01 3 w = (Inr (Some ws), ?w1)"
    using transaction_reply [OF bus_address_init2 bytes_serial _ assms(1) _ assms(3), of address "0.01"]
      assms(2) by simp
  have one: "read_words_loop [b0, b1, c] [0..<1] [] = Inr [push_bit 8 b0 OR b1]"
    using assms(4) by (simp add: Let_def)
  have "rx ?w1 = [b0, b1, c] @ rest" by simp
  from transaction_reply [OF bus_address_init3 bytes_featureset _ this _ one, of address "PyList ws" "0.01"]
  have fs: "i2c_read_words_from_cmd ?self3 [0x20, 0x2f] 0.01 1 ?w1 =
      (Inr (Some [push_bit 8 b0 OR b1]),
       w\<lparr>rx := rest,
         trace := trace w @
           [Writeto address [0x36, 0x82], Sleep 0.01, Readfrom_into address 9,
            Writeto address [0x20, 0x2f], Sleep 0.01, Readfrom_into address 3]\<rparr>)"
    by simp
  show ?thesis
    using assms(5) serial fs
    by (simp add: SGP30_def init_def setattr_def subscript_def SGP30_FEATURESET_def Let_def)
qed


theorem wrong_featureset_fails_construction_witness:
  "rx \<lparr>rx = [0, 0, 0x81, 0, 0, 0x81, 0, 0, 0x81, 0, 0, 0x81], trace = []\<rparr>
     = [0, 0, 0x81, 0, 0, 0x81, 0, 0, 0x81] @ [0, 0, 0x81] @ []
   \<and> length [0, 0, 0x81, 0, 0, 0x81, 0, 0, 0x81 :: int] = 9
   \<and> read_words_loop [0, 0, 0x81, 0, 0, 0x81, 0, 0, 0x81] [0..<3] [] = Inr [0, 0, 0]
   \<and> generate_crc [0, 0] = 0x81
   \<and> push_bit 8 0 OR 0 \<noteq> (0x0020 :: int)
   \<and> SGP30 0x58 \<lparr>rx = [0, 0, 0x81, 0, 0, 0x81, 0, 0, 0x81, 0, 0, 0x81], trace = []\<rparr>
       = (Inl (RuntimeError ''SGP30 Not detected''),
          \<lparr>rx = [],
           trace = [Writeto 0x58 [0x36, 0x82], Sleep 0.01, Readfrom_into 0x58 9,
                    Writeto 0x58 [0x20, 0x2f], Sleep 0.01, Readfrom_into 0x58 3]\<rparr>)"
  using wrong_featureset_fails_construction [of "\<lparr>rx = [0, 0, 0x81, 0, 0, 0x81, 0, 0, 0x81, 0, 0, 0x81], trace = []\<rparr>"
      "[0, 0, 0x81, 0, 0, 0x81, 0, 0, 0x81]" 0 0 "0x81" "[]" "[0, 0, 0]" "0x58"]
  by (simp add: crc_0000 Let_def upt_rec)

subsection \<open>Writing the baseline\<close>

lemma baseline_loop_two:
  "baseline_loop [t, c] [] =
     [drop_bit 8 t, t AND 0xFF, generate_crc [drop_bit 8 t, t AND 0xFF],
      drop_bit 8 c, c AND 0xFF, generate_crc [drop_bit 8 c, c AND 0xFF]]"
  by (simp add: Let_def)

lemma high_byte_range: "0 \<le> v \<Longrightarrow> v \<le> 65535 \<Longrightarrow> 0 \<le> drop_bit 8 v \<and> drop_bit 8 v < (256::int)"
  by (simp add: drop_bit_eq_div) linarith

lemma low_byte_range: "0 \<le> (v::int) AND 0xFF \<and> v AND 0xFF < 256"
proof -
  have "take_bit 8 v < (2::int) ^ 8" by (rule take_bit_int_less_exp)
  then show ?thesis by (simp add: and_255_take_bit)
qed

lemma crc_byte_range: "0 \<le> generate_crc data \<and> generate_crc data < 256"
  using generate_crc_range [of data] by simp

lemma bytes_set_baseline:
  assumes "0 \<le> c" "c \<le> 65535" "0 \<le> t" "t \<le> 65535"
  shows "bytes ([0x20, 0x1e] @ baseline_loop [t, c] []) = Inr ([0x20, 0x1e] @ baseline_loop [t, c] [])"
  using high_byte_range [OF assms(1,2)] high_byte_range [OF assms(3,4)]
    low_byte_range [of c] low_byte_range [of t]
    crc_byte_range [of "[drop_bit 8 t, t AND 0xFF]"] crc_byte_range [of "[drop_bit 8 c, c AND 0xFF]"]
  unfolding baseline_loop_two bytes_def by simp

lemma setter_transmits:
  assumes "bus_address self = Inr a"
    and "0 \<le> c" "c \<le> 65535" "0 \<le> t" "t \<le> 65535"
    and "c \<noteq> 0 \<or> t \<noteq> 0"
  shows "iaq_baseline_setter self c t w =
         (Inr (), w\<lparr>trace := trace w @
            [Writeto a ([0x20, 0x1e] @ baseline_loop [t, c] []), Sleep 0.01]\<rparr>)"
proof -
  have "\<not> (c = 0 \<and> t = 0)" using assms(6) by simp
  then show ?thesis
    using transaction_noreply [OF assms(1) bytes_set_baseline [OF assms(2-5)], of "0.01" w]
    by (simp add: iaq_baseline_setter_def run_profile_def Let_def del: baseline_loop.simps)
qed

text \<open>
  The body of the setter, run with an integer for each parameter, does what its
  docstring says: the pair (0, 0) is refused with \<open>Invalid baseline\<close> before the
  bus has received any call, and every other pair of 16-bit values is written.
\<close>

lemma setter_body_zero_pair:
  "iaq_baseline_setter self 0 0 w = (Inl (RuntimeError ''Invalid baseline''), w)"
  by (simp add: iaq_baseline_setter_def)

lemma setter_body_example:
  "iaq_baseline_setter example_handle 0 5 \<lparr>rx = [], trace = []\<rparr>
     = (Inr (), \<lparr>rx = [],
          trace = [Writeto 0x58 [0x20, 0x1e, 0x00, 0x05, 0x74, 0x00, 0x00, 0x81], Sleep 0.01]\<rparr>)"
  using setter_transmits [of example_handle "0x58" 0 5 "\<lparr>rx = [], trace = []\<rparr>"]
  by (simp add: example_handle_def bus_address_def crc_0000 crc_0005 Let_def)

text \<open>
  A value that does not fit in sixteen bits passes the test of the body, but its high
  byte is no byte: \<open>bytes\<close> raises \<open>ValueError\<close> and nothing is written.
\<close>

lemma setter_body_out_of_range:
  "iaq_baseline_setter example_handle 65536 1 \<lparr>rx = [], trace = []\<rparr>
     = (Inl ValueError, \<lparr>rx = [], trace = []\<rparr>)
   \<and> iaq_baseline_setter example_handle (- 1) 0 \<lparr>rx = [], trace = []\<rparr>
     = (Inl ValueError, \<lparr>rx = [], trace = []\<rparr>)"
  by (simp add: iaq_baseline_setter_def run_profile_def i2c_read_words_from_cmd_def
      example_handle_def bus_attributes_def bytes_def Let_def drop_bit_eq_div)

text \<open>
  The class, however, reaches this body through the property only, and a property
  hands its setter one value. Whatever is assigned, the call lacks the second
  argument: it raises \<open>TypeError\<close> and the world is as it was.
\<close>

lemma iaq_baseline_fset_two_ints:
  "iaq_baseline_fset self [PyInt c, PyInt t] w = iaq_baseline_setter self c t w"
  by (simp add: iaq_baseline_fset_def)

lemma iaq_baseline_assign_fails:
  "iaq_baseline_assign self v w = (Inl TypeError, w)"
  by (simp add: iaq_baseline_assign_def iaq_baseline_fset_def split: pyval.splits)

text \<open>
  Claim C5. Setting the baseline to the pair (0, 0) should raise \<open>Invalid baseline\<close>
  before any bus traffic, and a pair with a value that is not zero should be
  transmitted. The code does neither through the interface of the class: on a
  constructed handle the assignment \<open>h.iaq_baseline = (0, 0)\<close> raises \<open>TypeError\<close>,
  not \<open>Invalid baseline\<close>, and the assignment \<open>h.iaq_baseline = (0, 5)\<close> raises
  \<open>TypeError\<close> too and writes nothing to the bus.
\<close>

theorem iaq_baseline_assignment_type_error:
  "iaq_baseline_assign example_handle (PyList [0, 0]) \<lparr>rx = [], trace = []\<rparr>
     = (Inl TypeError, \<lparr>rx = [], trace = []\<rparr>)
   \<and> iaq_baseline_assign example_handle (PyList [0, 0]) \<lparr>rx = [], trace = []\<rparr>
     \<noteq> (Inl (RuntimeError ''Invalid baseline''), \<lparr>rx = [], trace = []\<rparr>)
   \<and> iaq_baseline_assign example_handle (PyList [0, 5]) \<lparr>rx = [], trace = []\<rparr>
     = (Inl TypeError, \<lparr>rx = [], trace = []\<rparr>)"
  by (simp add: iaq_baseline_assign_fails)

subsection \<open>Measuring\<close>

lemma transaction_Inr:
  assumes "i2c_read_words_from_cmd self command delay n w = (Inr r, w')" and "0 < n"
  shows "3 * n \<le> length (rx w)
     \<and> r = Some (map (\<lambda>j. push_bit 8 (rx w ! (3 * j)) OR rx w ! (3 * j + 1)) [0..<n])
     \<and> rx w' = drop (3 * n) (rx w)"
proof -
  from assms obtain crc_result where len: "3 * n \<le> length (rx w)"
    and buf: "crc_result = take (3 * n) (rx w)"
    and w': "rx w' = drop (3 * n) (rx w)"
    and loop: "read_words_loop crc_result [0..<n] [] = Inr (the r)" and r: "r \<noteq> None"
    by (auto simp add: i2c_read_words_from_cmd_def writeto_def sleep_def readfrom_into_def
        SGP30_WORD_LEN_def Let_def mult.commute split: sum.splits if_splits pyval.splits)
  from read_words_loop_Inr [OF loop]
  have "the r = map (\<lambda>j. push_bit 8 (crc_result ! (3 * j)) OR crc_result ! (3 * j + 1)) [0..<n]"
    by simp
  also have "\<dots> = map (\<lambda>j. push_bit 8 (rx w ! (3 * j)) OR rx w ! (3 * j + 1)) [0..<n]"
    unfolding buf by (rule map_cong) auto
  finally show ?thesis using len w' r by auto
qed

lemma upt_2: "[0..<2] = [0, Suc 0]"
  by (simp add: upt_rec)

text \<open>
  Claim C6. On a constructed handle, \<open>iaq_measure\<close> writes exactly the bytes
  \<open>[0x20, 0x08]\<close>, sleeps 50 ms and reads 6 bytes. Whenever it returns a value, this
  value is a list of two words, decoded from the bytes 0, 1 and 3, 4 of the reply,
  the six reply bytes are consumed, and the first word is what \<open>co2_equivalent\<close>
  returns and the second what \<open>tvoc\<close> returns.
\<close>

theorem iaq_measure_transaction:
  assumes "bus_address self = Inr a"
  shows "trace (snd (iaq_measure self w)) =
           trace w @ [Writeto a [0x20, 0x08], Sleep (50 / 1000), Readfrom_into a 6]
     \<and> (\<forall>r. fst (iaq_measure self w) = Inr r \<longrightarrow>
           r = Some [push_bit 8 (rx w ! 0) OR rx w ! 1, push_bit 8 (rx w ! 3) OR rx w ! 4]
           \<and> rx (snd (iaq_measure self w)) = drop 6 (rx w)
           \<and> fst (co2_equivalent self w) = Inr (push_bit 8 (rx w ! 0) OR rx w ! 1)
           \<and> fst (tvoc self w) = Inr (push_bit 8 (rx w ! 3) OR rx w ! 4))"
proof -
  have tr: "trace (snd (iaq_measure self w)) =
           trace w @ [Writeto a [0x20, 0x08], Sleep (50 / 1000), Readfrom_into a 6]"
    using transaction_trace [OF assms bytes_measure, of "0.05" 2 w]
    by (simp add: iaq_measure_def run_profile_def)
  have "r = Some [push_bit 8 (rx w ! 0) OR rx w ! 1, push_bit 8 (rx w ! 3) OR rx w ! 4]
           \<and> rx (snd (iaq_measure self w)) = drop 6 (rx w)
           \<and> fst (co2_equivalent self w) = Inr (push_bit 8 (rx w ! 0) OR rx w ! 1)
           \<and> fst (tvoc self w) = Inr (push_bit 8 (rx w ! 3) OR rx w ! 4)"
    if ok: "fst (iaq_measure self w) = Inr r" for r
  proof -
    obtain w' where eq: "iaq_measure self w = (Inr r, w')"
      using ok by (cases "iaq_measure self w") simp
    then have "i2c_read_words_from_cmd self [0x20, 0x08] 0.05 2 w = (Inr r, w')"
      by (simp add: iaq_measure_def run_profile_def)
    from transaction_Inr [OF this]
    have r: "r = Some [push_bit 8 (rx w ! 0) OR rx w ! 1, push_bit 8 (rx w ! 3) OR rx w ! 4]"
      and w': "rx w' = drop 6 (rx w)"
      by (simp_all add: upt_2)
    show ?thesis
      using r w' by (simp add: co2_equivalent_def tvoc_def eq subscript_def)
  qed
  with tr show ?thesis by blast
qed

theorem iaq_measure_transaction_witness:
  "bus_address example_handle = Inr 0x58
   \<and> iaq_measure example_handle \<lparr>rx = [0x01, 0x90, 0x4C, 0x00, 0x05, 0x74], trace = []\<rparr>
      = (Inr (Some [400, 5]),
         \<lparr>rx = [], trace = [Writeto 0x58 [0x20, 0x08], Sleep (50 / 1000), Readfrom_into 0x58 6]\<rparr>)
   \<and> fst (co2_equivalent example_handle \<lparr>rx = [0x01, 0x90, 0x4C, 0x00, 0x05, 0x74], trace = []\<rparr>) = Inr 400
   \<and> fst (tvoc example_handle \<lparr>rx = [0x01, 0x90, 0x4C, 0x00, 0x05, 0x74], trace = []\<rparr>) = Inr 5"
proof -
  let ?w = "\<lparr>rx = [0x01, 0x90, 0x4C, 0x00, 0x05, 0x74], trace = []\<rparr>"
  have a: "bus_address example_handle = Inr 0x58"
    by (simp add: example_handle_def bus_address_def)
  have m: "iaq_measure example_handle ?w
      = (Inr (Some [400, 5]),
         \<lparr>rx = [], trace = [Writeto 0x58 [0x20, 0x08], Sleep (50 / 1000), Readfrom_into 0x58 6]\<rparr>)"
    using a bus_attributes_of_address [OF a]
    by (simp add: iaq_measure_def run_profile_def i2c_read_words_from_cmd_def bytes_def
        writeto_def sleep_def readfrom_into_def SGP30_WORD_LEN_def Let_def upt_2
        crc_0190 crc_0005)
  from iaq_measure_transaction [OF a, of ?w] m a show ?thesis
    by simp
qed

subsection \<open>The order of the baseline words\<close>

lemma word_triple_decodes:
  "read_words_loop
     [drop_bit 8 t, t AND 0xFF, generate_crc [drop_bit 8 t, t AND 0xFF],
      drop_bit 8 c, c AND 0xFF, generate_crc [drop_bit 8 c, c AND 0xFF]] [0..<2] [] = Inr [t, c]"
  using word_join [of t] word_join [of c] by (simp add: upt_2 Let_def)

text \<open>
  Claim C7. A successful call of the setter with the CO2-equivalent value \<open>c\<close> and
  the TVOC value \<open>t\<close> writes to the bus exactly \<open>[0x20, 0x1E]\<close> followed by six
  bytes: the two big-endian bytes of \<open>t\<close> and their checksum, then the two big-endian
  bytes of \<open>c\<close> and their checksum. This is the reverse of the getter's order: the
  getter, given these six bytes as reply, returns \<open>[t, c]\<close>, where it returns
  (CO2-equivalent, TVOC) from the device.
\<close>

theorem set_baseline_payload_order:
  assumes "bus_address self = Inr a"
    and "0 \<le> c" "c \<le> 65535" "0 \<le> t" "t \<le> 65535"
    and "c \<noteq> 0 \<or> t \<noteq> 0"
  shows "iaq_baseline_setter self c t w =
         (Inr (), w\<lparr>trace := trace w @
            [Writeto a ([0x20, 0x1E]
               @ [drop_bit 8 t, t AND 0xFF, generate_crc [drop_bit 8 t, t AND 0xFF]]
               @ [drop_bit 8 c, c AND 0xFF, generate_crc [drop_bit 8 c, c AND 0xFF]]),
             Sleep 0.01]\<rparr>)
     \<and> fst (iaq_baseline self
            (w\<lparr>rx := [drop_bit 8 t, t AND 0xFF, generate_crc [drop_bit 8 t, t AND 0xFF]]
               @ [drop_bit 8 c, c AND 0xFF, generate_crc [drop_bit 8 c, c AND 0xFF]]\<rparr>))
         = Inr (Some [t, c])"
proof -
  have set: "iaq_baseline_setter self c t w =
         (Inr (), w\<lparr>trace := trace w @
            [Writeto a ([0x20, 0x1E]
               @ [drop_bit 8 t, t AND 0xFF, generate_crc [drop_bit 8 t, t AND 0xFF]]
               @ [drop_bit 8 c, c AND 0xFF, generate_crc [drop_bit 8 c, c AND 0xFF]]),
             Sleep 0.01]\<rparr>)"
    using setter_transmits [OF assms, of w] unfolding baseline_loop_two by simp
  let ?payload = "[drop_bit 8 t, t AND 0xFF, generate_crc [drop_bit 8 t, t AND 0xFF],
      drop_bit 8 c, c AND 0xFF, generate_crc [drop_bit 8 c, c AND 0xFF]]"
  have "rx (w\<lparr>rx := ?payload\<rparr>) = ?payload @ []" by simp
  from transaction_reply [OF assms(1) bytes_get_baseline _ this _ word_triple_decodes, of "0.01"]
  have "fst (iaq_baseline self (w\<lparr>rx := ?payload\<rparr>)) = Inr (Some [t, c])"
    by (simp add: iaq_baseline_def run_profile_def)
  with set show ?thesis by simp
qed

theorem set_baseline_payload_order_witness:
  "bus_address example_handle = Inr 0x58
   \<and> (0x0190::int) \<noteq> 0
   \<and> iaq_baseline_setter example_handle 0x0190 5 \<lparr>rx = [], trace = []\<rparr>
     = (Inr (), \<lparr>rx = [],
          trace = [Writeto 0x58 [0x20, 0x1E, 0x00, 0x05, 0x74, 0x01, 0x90, 0x4C], Sleep 0.01]\<rparr>)
   \<and> fst (iaq_baseline example_handle \<lparr>rx = [0x00, 0x05, 0x74, 0x01, 0x90, 0x4C], trace = []\<rparr>)
     = Inr (Some [5, 0x0190])"
  using set_baseline_payload_order [of example_handle "0x58" "0x0190" 5 "\<lparr>rx = [], trace = []\<rparr>"]
  by (simp add: example_handle_def bus_address_def crc_0190 crc_0005 drop_bit_eq_div and_255_take_bit take_bit_eq_mod)

subsection \<open>What the handle stores\<close>

text \<open>
  Claim C9, as amended. The handle stores no verified flag. When construction returns
  a handle, its attributes are exactly \<open>_i2c\<close>, \<open>_addr\<close> and \<open>serial\<close> (three
  words), and the feature-set word that was read (bytes 9 and 10 of the twelve bytes
  received) is \<open>0x0020\<close>: the existence of the handle is the only record of the
  confirmed feature set.
\<close>

theorem handle_only_after_featureset:
  assumes "SGP30 address w = (Inr self, w')"
  shows "(\<exists>ws. length ws = 3 \<and>
            self = [(''_i2c'', PyI2C), (''_addr'', PyInt address), (''serial'', PyList ws)])
     \<and> 12 \<le> length (rx w)
     \<and> push_bit 8 (rx w ! 9) OR rx w ! 10 = SGP30_FEATURESET"
proof -
  let ?self2 = "[(''_i2c'', PyI2C), (''_addr'', PyInt address)]"
  from assms obtain r w1 where
    serial: "i2c_read_words_from_cmd ?self2 [0x36, 0x82] 0.01 3 w = (Inr r, w1)"
    by (auto simp add: SGP30_def init_def setattr_def Let_def split: sum.splits prod.splits)
  from transaction_Inr [OF serial] obtain ws where r: "r = Some ws" and ws: "length ws = 3"
    and len1: "9 \<le> length (rx w)" and w1: "rx w1 = drop 9 (rx w)"
    by auto
  let ?self3 = "[(''_i2c'', PyI2C), (''_addr'', PyInt address), (''serial'', PyList ws)]"
  from assms serial r obtain fs w2 where
    feat: "i2c_read_words_from_cmd ?self3 [0x20, 0x2f] 0.01 1 w1 = (Inr fs, w2)"
    and rest: "(case subscript fs 0 of
                        Inl e \<Rightarrow> (Inl e, w2)
                      | Inr f \<Rightarrow>
                          if f \<noteq> SGP30_FEATURESET
                          then (Inl (RuntimeError ''SGP30 Not detected''), w2)
                          else (case initalise_indoor_air_quality ?self3 w2 of
                                  (Inl e, w3) \<Rightarrow> (Inl e, w3)
                                | (Inr _, w3) \<Rightarrow> (Inr ?self3, w3))) = (Inr self, w')"
    by (auto simp add: SGP30_def init_def setattr_def Let_def split: sum.splits prod.splits)
  from transaction_Inr [OF feat]
  have fs: "fs = Some [push_bit 8 (rx w1 ! 0) OR rx w1 ! 1]" and len2: "3 \<le> length (rx w1)"
    by (simp_all add: upt_rec)
  from len2 w1 have len: "12 \<le> length (rx w)" by simp
  from len w1 have idx: "rx w1 ! 0 = rx w ! 9" "rx w1 ! 1 = rx w ! 10"
    by simp_all
  from rest fs have "push_bit 8 (rx w1 ! 0) OR rx w1 ! 1 = SGP30_FEATURESET \<and> self = ?self3"
    by (auto simp add: subscript_def split: if_splits sum.splits prod.splits)
  with idx len ws show ?thesis by auto
qed


text \<open>
  A successful construction on a concrete bus: the returned object has the three
  attributes \<open>_i2c\<close>, \<open>_addr\<close> and \<open>serial\<close>, and nothing named \<open>verified\<close>
  or holding a truth value.
\<close>

lemma construction_example:
  "SGP30 0x58 \<lparr>rx = [0, 0, 0x81, 0, 0, 0x81, 0, 0, 0x81, 0, 0x20, 0x07], trace = []\<rparr>
     = (Inr [(''_i2c'', PyI2C), (''_addr'', PyInt 0x58), (''serial'', PyList [0, 0, 0])],
        \<lparr>rx = [],
         trace = [Writeto 0x58 [0x36, 0x82], Sleep 0.01, Readfrom_into 0x58 9,
                  Writeto 0x58 [0x20, 0x2f], Sleep 0.01, Readfrom_into 0x58 3,
                  Writeto 0x58 [0x20, 0x03], Sleep 0.01]\<rparr>)"
  by (simp add: SGP30_def init_def setattr_def i2c_read_words_from_cmd_def bus_attributes_def
      bytes_def writeto_def sleep_def readfrom_into_def SGP30_WORD_LEN_def Let_def upt_rec
      subscript_def SGP30_FEATURESET_def initalise_indoor_air_quality_def run_profile_def
      crc_0000 crc_0020)

theorem handle_has_no_verified_flag_counterexample:
  "fst (SGP30 0x58 \<lparr>rx = [0, 0, 0x81, 0, 0, 0x81, 0, 0, 0x81, 0, 0x20, 0x07], trace = []\<rparr>)
     = Inr [(''_i2c'', PyI2C), (''_addr'', PyInt 0x58), (''serial'', PyList [0, 0, 0])]
   \<and> map fst [(''_i2c'', PyI2C), (''_addr'', PyInt 0x58), (''serial'', PyList [0, 0, 0])]
     = [''_i2c'', ''_addr'', ''serial'']
   \<and> map_of [(''_i2c'', PyI2C), (''_addr'', PyInt 0x58), (''serial'', PyList [0, 0, 0])]
       ''verified'' = None"
  by (simp add: construction_example)

theorem handle_only_after_featureset_witness:
  "SGP30 0x58 \<lparr>rx = [0, 0, 0x81, 0, 0, 0x81, 0, 0, 0x81, 0, 0x20, 0x07], trace = []\<rparr>
     = (Inr example_handle,
        \<lparr>rx = [],
         trace = [Writeto 0x58 [0x36, 0x82], Sleep 0.01, Readfrom_into 0x58 9,
                  Writeto 0x58 [0x20, 0x2f], Sleep 0.01, Readfrom_into 0x58 3,
                  Writeto 0x58 [0x20, 0x03], Sleep 0.01]\<rparr>)
   \<and> (\<exists>ws. length ws = 3 \<and>
          example_handle = [(''_i2c'', PyI2C), (''_addr'', PyInt 0x58), (''serial'', PyList ws)])
   \<and> 12 \<le> length [0, 0, 0x81, 0, 0, 0x81, 0, 0, 0x81, 0, 0x20, 0x07 :: int]
   \<and> push_bit 8 ([0, 0, 0x81, 0, 0, 0x81, 0, 0, 0x81, 0, 0x20, 0x07] ! 9)
         OR [0, 0, 0x81, 0, 0, 0x81, 0, 0, 0x81, 0, 0x20, 0x07] ! 10 = SGP30_FEATURESET"
proof -
  have ex: "SGP30 0x58 \<lparr>rx = [0, 0, 0x81, 0, 0, 0x81, 0, 0, 0x81, 0, 0x20, 0x07], trace = []\<rparr>
     = (Inr example_handle,
        \<lparr>rx = [],
         trace = [Writeto 0x58 [0x36, 0x82], Sleep 0.01, Readfrom_into 0x58 9,
                  Writeto 0x58 [0x20, 0x2f], Sleep 0.01, Readfrom_into 0x58 3,
                  Writeto 0x58 [0x20, 0x03], Sleep 0.01]\<rparr>)"
    unfolding example_handle_def by (rule construction_example)
  from handle_only_after_featureset [OF ex] ex show ?thesis
    by simp
qed

end
